theory Spec2Isabelle
  imports Main
begin

section \<open>Data model\<close>

text \<open>
  The two pages are Next.js route modules: \<^verbatim>\<open>pages/index.tsx\<close> (public, statically
  generated) and \<^verbatim>\<open>pages/[...catchall].tsx\<close> (login protected), the latter in two
  variants: one that fetches the page descriptor in \<^verbatim>\<open>getServerSideProps\<close> and one that
  defers the fetch to the browser through \<^verbatim>\<open>useSWR\<close>.

  JavaScript objects with string keys (\<^verbatim>\<open>Record<string, ...>\<close>) are association lists;
  their values are opaque to this code and stand here as strings.
\<close>

type_synonym js_record = "(string \<times> string) list"

text \<open>
  One element of \<^verbatim>\<open>entryCompMetas\<close>. The loader library declares \<^verbatim>\<open>params\<close> optional,
  so it is an option here.
\<close>

record comp_meta =
  displayName :: string
  params :: "js_record option"

text \<open>
  \<^verbatim>\<open>ComponentRenderData\<close>: the page descriptor. The pages read \<^verbatim>\<open>entryCompMetas\<close> only;
  \<open>bundle_output\<close> stands for everything else the descriptor carries.
\<close>

record component_render_data =
  entryCompMetas :: "comp_meta list"
  bundle_output :: string

text \<open>
  What a page can throw: the \<^verbatim>\<open>TypeError\<close> of reading a property of \<^verbatim>\<open>undefined\<close>, and
  the rejection of an awaited call into the loader library, which no handler catches.
\<close>

datatype js_error = TypeError | Rejected string

text \<open>
  The element \<^verbatim>\<open><PlasmicRootProvider ...><PlasmicComponent component=... /></PlasmicRootProvider>\<close>.
  The \<^verbatim>\<open>loader\<close> attribute is the module constant \<^verbatim>\<open>PLASMIC\<close> everywhere and is left
  out; an attribute the source does not write is \<open>None\<close>; \<open>component\<close> is the attribute of
  the only child.
\<close>

record root_provider =
  prefetchedData :: component_render_data
  prefetchedQueryData :: "js_record option"
  pageParams :: "js_record option"
  pageQuery :: "js_record option"
  component :: string

text \<open>
  What a page component returns: \<^verbatim>\<open><Error statusCode={n} />\<close>, the
  \<^verbatim>\<open><div>Loading...</div>\<close> of the client variant, or the provider element.
\<close>

datatype element = ErrorPage nat | Loading | Provider root_provider

text \<open>The two calls into the loader library, recorded in the order they are made.\<close>

datatype call = FetchComponentData string | ExtractQueryData root_provider

record env =
  maybeFetchComponentData :: "string \<Rightarrow> js_error + component_render_data option"
  extractPlasmicQueryData :: "root_provider \<Rightarrow> js_error + js_record"

text \<open>Props of the page component of index.tsx and of the server-prefetch catch-all.\<close>

record page_props =
  plasmicData :: "component_render_data option"
  queryCache :: "js_record option"

text \<open>Props of the page component of the client-fetch catch-all.\<close>

record client_props =
  plasmicPath :: string

record redirect =
  destination :: string
  permanent :: bool

datatype 'p gssp_result = RedirectResult redirect | PropsResult 'p

record static_result =
  props :: page_props
  revalidate :: "nat option"

text \<open>
  A value of the route parameter \<^verbatim>\<open>catchall\<close>: a string or an array of strings. The
  request context holds \<^verbatim>\<open>params\<close>, which may be undefined.
\<close>

datatype param_value = PString string | PArray "string list"

record gssp_context =
  context_params :: "(string \<rightharpoonup> param_value) option"

text \<open>What \<^verbatim>\<open>useSWR\<close> returns.\<close>

record swr_response =
  data :: "component_render_data option"
  error :: "js_error option"
  isValidating :: bool

section \<open>JavaScript built-ins\<close>

text \<open>
  \<^verbatim>\<open>Array.prototype.join\<close> as the language defines it: a loop over the indices that
  appends the separator before every element but the first.
\<close>

fun join_loop :: "string \<Rightarrow> string \<Rightarrow> nat \<Rightarrow> string list \<Rightarrow> string" where
  "join_loop sep R k [] = R"
| "join_loop sep R k (x # xs) =
     join_loop sep ((if 0 < k then R @ sep else R) @ x) (Suc k) xs"

definition join :: "string list \<Rightarrow> string \<Rightarrow> string" where
  "join xs sep = join_loop sep [] 0 xs"

text \<open>\<^verbatim>\<open>xs[i]\<close>: reading past the end gives \<^verbatim>\<open>undefined\<close>, it does not throw.\<close>

definition js_index :: "'a list \<Rightarrow> nat \<Rightarrow> 'a option" where
  "js_index xs i = (if i < length xs then Some (xs ! i) else None)"

section \<open>The lookup path\<close>

text \<open>\<^verbatim>\<open>const { catchall } = context.params ?? {};\<close>\<close>

definition catchall_of :: "gssp_context \<Rightarrow> param_value option" where
  "catchall_of ctx =
     (case context_params ctx of None \<Rightarrow> None | Some ps \<Rightarrow> ps ''catchall'')"

text \<open>
  \<^verbatim>\<open>typeof catchall === 'string' ? catchall : Array.isArray(catchall) ? `/${catchall.join('/')}` : '/'\<close>,
  the same expression in both catch-all variants.
\<close>

definition plasmicPath_of :: "param_value option \<Rightarrow> string" where
  "plasmicPath_of catchall =
     (case catchall of
        Some (PString s) \<Rightarrow> s
      | Some (PArray segs) \<Rightarrow> ''/'' @ join segs ''/''
      | None \<Rightarrow> ''/'')"

text \<open>
  The specification's wording of the array case, for comparison with the code: the
  segments joined with \<open>/\<close> separators.
\<close>

fun spec_joined :: "string list \<Rightarrow> string" where
  "spec_joined [] = []"
| "spec_joined [x] = x"
| "spec_joined (x # y # ys) = x @ ''/'' @ spec_joined (y # ys)"

section \<open>Page components\<close>

text \<open>
  \<^verbatim>\<open>PlasmicLoaderPage\<close> of index.tsx. The second argument is \<^verbatim>\<open>router.query\<close>. A handler
  or component returns \<open>Inl\<close> of what it throws.
\<close>

definition index_PlasmicLoaderPage :: "page_props \<Rightarrow> js_record \<Rightarrow> js_error + element" where
  "index_PlasmicLoaderPage ps query =
     (if (case plasmicData ps of None \<Rightarrow> True
          | Some d \<Rightarrow> length (entryCompMetas d) = 0)
      then Inr (ErrorPage 404)
      else case plasmicData ps of
             None \<Rightarrow> Inl TypeError
           | Some d \<Rightarrow>
               (case js_index (entryCompMetas d) 0 of
                  None \<Rightarrow> Inl TypeError
                | Some pageMeta \<Rightarrow>
                    Inr (Provider \<lparr>prefetchedData = d,
                                   prefetchedQueryData = queryCache ps,
                                   pageParams = params pageMeta,
                                   pageQuery = Some query,
                                   component = displayName pageMeta\<rparr>)))"

text \<open>\<^verbatim>\<open>PlasmicLoaderPage\<close> of the server-prefetch catch-all: the same text as in index.tsx.\<close>

definition catchall_PlasmicLoaderPage :: "page_props \<Rightarrow> js_record \<Rightarrow> js_error + element" where
  "catchall_PlasmicLoaderPage ps query =
     (if (case plasmicData ps of None \<Rightarrow> True
          | Some d \<Rightarrow> length (entryCompMetas d) = 0)
      then Inr (ErrorPage 404)
      else case plasmicData ps of
             None \<Rightarrow> Inl TypeError
           | Some d \<Rightarrow>
               (case js_index (entryCompMetas d) 0 of
                  None \<Rightarrow> Inl TypeError
                | Some pageMeta \<Rightarrow>
                    Inr (Provider \<lparr>prefetchedData = d,
                                   prefetchedQueryData = queryCache ps,
                                   pageParams = params pageMeta,
                                   pageQuery = Some query,
                                   component = displayName pageMeta\<rparr>)))"

text \<open>
  \<^verbatim>\<open>PlasmicLoaderPage\<close> of the client-fetch catch-all. The first argument is what
  \<^verbatim>\<open>useSWR\<close> returns in this render for the key \<^verbatim>\<open>`plasmicData_${props.plasmicPath}`\<close>;
  the props reach the render through that key and the fetcher only. A fetch error is an
  exception object, hence truthy. The three guards are tested in the order of the
  source; after them \<^verbatim>\<open>plasmicData!.entryCompMetas[0]\<close> and \<^verbatim>\<open>pageMeta.params\<close> are read
  unguarded.
\<close>

definition client_PlasmicLoaderPage ::
  "swr_response \<Rightarrow> client_props \<Rightarrow> js_record \<Rightarrow> js_error + element" where
  "client_PlasmicLoaderPage swr ps query =
     (if error swr \<noteq> None then Inr (ErrorPage 500)
      else if isValidating swr \<and> data swr = None then Inr Loading
      else if \<not> isValidating swr \<and>
              (case data swr of None \<Rightarrow> True
               | Some d \<Rightarrow> length (entryCompMetas d) = 0)
      then Inr (ErrorPage 404)
      else case data swr of
             None \<Rightarrow> Inl TypeError
           | Some d \<Rightarrow>
               (case js_index (entryCompMetas d) 0 of
                  None \<Rightarrow> Inl TypeError
                | Some pageMeta \<Rightarrow>
                    Inr (Provider \<lparr>prefetchedData = d,
                                   prefetchedQueryData = Some [],
                                   pageParams = params pageMeta,
                                   pageQuery = Some query,
                                   component = displayName pageMeta\<rparr>)))"

section \<open>Server steps\<close>

text \<open>
  A server step returns the calls it made into the loader library, in order, and its
  result: \<open>Inl\<close> of what it throws, \<open>Inr\<close> of what it returns.

  \<^verbatim>\<open>getStaticProps\<close> of index.tsx, with \<^verbatim>\<open>pageToLoad = '/'\<close>. The attributes of the
  provider element are evaluated before \<^verbatim>\<open>extractPlasmicQueryData\<close> is called, so the
  read of \<^verbatim>\<open>pageMeta.params\<close> throws before that call.
\<close>

definition pageToLoad :: string where
  "pageToLoad = ''/''"

definition getStaticProps :: "env \<Rightarrow> call list \<times> (js_error + static_result)" where
  "getStaticProps e =
     (let path = pageToLoad in
      case maybeFetchComponentData e path of
        Inl err \<Rightarrow> ([FetchComponentData path], Inl err)
      | Inr None \<Rightarrow>
          ([FetchComponentData path],
           Inr \<lparr>props = \<lparr>plasmicData = None, queryCache = None\<rparr>, revalidate = None\<rparr>)
      | Inr (Some d) \<Rightarrow>
          (case js_index (entryCompMetas d) 0 of
             None \<Rightarrow> ([FetchComponentData path], Inl TypeError)
           | Some pageMeta \<Rightarrow>
               (let tree = \<lparr>prefetchedData = d,
                            prefetchedQueryData = None,
                            pageParams = params pageMeta,
                            pageQuery = None,
                            component = displayName pageMeta\<rparr>
                in case extractPlasmicQueryData e tree of
                     Inl err \<Rightarrow> ([FetchComponentData path, ExtractQueryData tree], Inl err)
                   | Inr qc \<Rightarrow>
                       ([FetchComponentData path, ExtractQueryData tree],
                        Inr \<lparr>props = \<lparr>plasmicData = Some d, queryCache = Some qc\<rparr>,
                             revalidate = Some 60\<rparr>))))"

text \<open>
  \<^verbatim>\<open>getServerSideProps\<close> of the server-prefetch catch-all. The source binds
  \<^verbatim>\<open>isAuthorized\<close> to a literal that its comment says is switched by hand between true
  and false; the step is therefore written over the value of that binding, and
  \<open>isAuthorized\<close> below is the literal as committed.
\<close>

definition isAuthorized :: bool where
  "isAuthorized = True"

definition catchall_getServerSideProps_with ::
  "bool \<Rightarrow> env \<Rightarrow> gssp_context \<Rightarrow> call list \<times> (js_error + page_props gssp_result)" where
  "catchall_getServerSideProps_with authorized e ctx =
     (let catchall = catchall_of ctx;
          path = plasmicPath_of catchall
      in if authorized \<noteq> True
         then ([], Inr (RedirectResult \<lparr>destination = ''/login'', permanent = False\<rparr>))
         else case maybeFetchComponentData e path of
           Inl err \<Rightarrow> ([FetchComponentData path], Inl err)
         | Inr None \<Rightarrow>
             ([FetchComponentData path],
              Inr (PropsResult \<lparr>plasmicData = None, queryCache = None\<rparr>))
         | Inr (Some d) \<Rightarrow>
             (case js_index (entryCompMetas d) 0 of
                None \<Rightarrow> ([FetchComponentData path], Inl TypeError)
              | Some pageMeta \<Rightarrow>
                  (let tree = \<lparr>prefetchedData = d,
                               prefetchedQueryData = None,
                               pageParams = params pageMeta,
                               pageQuery = None,
                               component = displayName pageMeta\<rparr>
                   in case extractPlasmicQueryData e tree of
                        Inl err \<Rightarrow>
                          ([FetchComponentData path, ExtractQueryData tree], Inl err)
                      | Inr qc \<Rightarrow>
                          ([FetchComponentData path, ExtractQueryData tree],
                           Inr (PropsResult
                                  \<lparr>plasmicData = Some d, queryCache = Some qc\<rparr>)))))"

definition catchall_getServerSideProps ::
  "env \<Rightarrow> gssp_context \<Rightarrow> call list \<times> (js_error + page_props gssp_result)" where
  "catchall_getServerSideProps = catchall_getServerSideProps_with isAuthorized"

text \<open>
  \<^verbatim>\<open>getServerSideProps\<close> of the client-fetch catch-all: the same two first steps, then
  the path alone as props. It is given the same environment as the other steps so that
  its list of calls can be compared with theirs.
\<close>

definition client_getServerSideProps_with ::
  "bool \<Rightarrow> env \<Rightarrow> gssp_context \<Rightarrow> call list \<times> (js_error + client_props gssp_result)" where
  "client_getServerSideProps_with authorized e ctx =
     (let catchall = catchall_of ctx;
          path = plasmicPath_of catchall
      in if authorized \<noteq> True
         then ([], Inr (RedirectResult \<lparr>destination = ''/login'', permanent = False\<rparr>))
         else ([], Inr (PropsResult \<lparr>plasmicPath = path\<rparr>)))"

definition client_getServerSideProps ::
  "env \<Rightarrow> gssp_context \<Rightarrow> call list \<times> (js_error + client_props gssp_result)" where
  "client_getServerSideProps = client_getServerSideProps_with isAuthorized"

section \<open>The lookup path: properties\<close>

lemma join_loop_first:
  "join_loop sep R 0 (x # xs) = join_loop sep (R @ x) (Suc 0) xs"
  by simp

lemma join_loop_rest:
  "join_loop sep R (Suc k) xs = R @ concat (map (\<lambda>x. sep @ x) xs)"
  by (induction xs arbitrary: R k) simp_all

lemma spec_joined_Cons:
  "spec_joined (x # xs) = x @ concat (map (\<lambda>y. ''/'' @ y) xs)"
  by (induction xs arbitrary: x) simp_all

lemma join_spec_joined: "join segs ''/'' = spec_joined segs"
proof (cases segs)
  case Nil
  then show ?thesis by (simp add: join_def)
next
  case (Cons x xs)
  have "join (x # xs) ''/'' = x @ concat (map (\<lambda>y. ''/'' @ y) xs)"
    unfolding join_def join_loop_first by (simp add: join_loop_rest)
  with Cons show ?thesis by (simp only: spec_joined_Cons)
qed

text \<open>
  Claim C1. For every value of the catch-all route parameter, the derived lookup path is
  the string itself when the parameter is a single string (no leading slash is added),
  a slash followed by the segments joined with slashes when it is an array, and a single
  slash when it is absent, be it that the request has no params object or that the
  object has no \<open>catchall\<close> key.
\<close>

theorem plasmicPath_of_cases:
  "plasmicPath_of (Some (PString s)) = s \<and>
   plasmicPath_of (Some (PArray segs)) = CHR ''/'' # spec_joined segs \<and>
   plasmicPath_of None = ''/'' \<and>
   plasmicPath_of (catchall_of \<lparr>context_params = None\<rparr>) = ''/'' \<and>
   plasmicPath_of (catchall_of \<lparr>context_params = Some Map.empty\<rparr>) = ''/'' \<and>
   plasmicPath_of (catchall_of \<lparr>context_params = Some (ps(''catchall'' \<mapsto> v))\<rparr>)
     = plasmicPath_of (Some v)"
  by (simp add: plasmicPath_of_def catchall_of_def join_spec_joined)

section \<open>Reading the first entry\<close>

lemma js_index_Nil: "js_index [] 0 = None"
  by (simp add: js_index_def)

lemma js_index_Cons: "js_index (x # xs) 0 = Some x"
  by (simp add: js_index_def)

section \<open>The authorization redirect\<close>

text \<open>
  Claim C2. In both catch-all variants, when the authorization result is false the server
  step returns the redirect to \<open>/login\<close> with \<open>permanent = false\<close>, and its list of calls
  into the loader library is empty: no page descriptor is fetched on that request.
\<close>

theorem unauthorized_redirect_no_fetch:
  assumes "\<not> authorized"
  shows "catchall_getServerSideProps_with authorized e ctx =
           ([], Inr (RedirectResult \<lparr>destination = ''/login'', permanent = False\<rparr>)) \<and>
         client_getServerSideProps_with authorized e ctx =
           ([], Inr (RedirectResult \<lparr>destination = ''/login'', permanent = False\<rparr>))"
  using assms
  by (simp add: catchall_getServerSideProps_with_def client_getServerSideProps_with_def)

theorem unauthorized_redirect_no_fetch_witness:
  "\<not> False \<and>
   catchall_getServerSideProps_with False
     \<lparr>maybeFetchComponentData =
        (\<lambda>p. Inr (Some \<lparr>entryCompMetas = [\<lparr>displayName = ''Dashboard'', params = None\<rparr>],
                          bundle_output = ''b''\<rparr>)),
      extractPlasmicQueryData = (\<lambda>t. Inr [])\<rparr>
     \<lparr>context_params = Some [''catchall'' \<mapsto> PArray [''dashboard'']]\<rparr> =
     ([], Inr (RedirectResult \<lparr>destination = ''/login'', permanent = False\<rparr>)) \<and>
   client_getServerSideProps_with False
     \<lparr>maybeFetchComponentData =
        (\<lambda>p. Inr (Some \<lparr>entryCompMetas = [\<lparr>displayName = ''Dashboard'', params = None\<rparr>],
                          bundle_output = ''b''\<rparr>)),
      extractPlasmicQueryData = (\<lambda>t. Inr [])\<rparr>
     \<lparr>context_params = Some [''catchall'' \<mapsto> PArray [''dashboard'']]\<rparr> =
     ([], Inr (RedirectResult \<lparr>destination = ''/login'', permanent = False\<rparr>))"
proof -
  have h: "\<not> False" by simp
  show ?thesis using unauthorized_redirect_no_fetch [OF h] by simp
qed

section \<open>Rendering a fetched descriptor\<close>

text \<open>
  Claim C3. For every descriptor with a non-empty entry list, the page component of
  index.tsx and of the server-prefetch catch-all returns the provider element whose child
  names the first entry's \<open>displayName\<close>, whose \<open>pageParams\<close> are that entry's \<open>params\<close>
  and whose \<open>pageQuery\<close> is the router's query, both unchanged. The later entries \<open>ms\<close>
  occur nowhere in the element but inside the descriptor, which is handed on whole.
\<close>

theorem render_first_entry:
  assumes "entryCompMetas d = m # ms"
  shows "index_PlasmicLoaderPage \<lparr>plasmicData = Some d, queryCache = qc\<rparr> query =
           Inr (Provider \<lparr>prefetchedData = d, prefetchedQueryData = qc,
                          pageParams = params m, pageQuery = Some query,
                          component = displayName m\<rparr>) \<and>
         catchall_PlasmicLoaderPage \<lparr>plasmicData = Some d, queryCache = qc\<rparr> query =
           Inr (Provider \<lparr>prefetchedData = d, prefetchedQueryData = qc,
                          pageParams = params m, pageQuery = Some query,
                          component = displayName m\<rparr>)"
  using assms
  by (simp add: index_PlasmicLoaderPage_def catchall_PlasmicLoaderPage_def js_index_Cons)

theorem render_first_entry_witness:
  "entryCompMetas \<lparr>entryCompMetas = [\<lparr>displayName = ''Home'', params = Some [(''id'', ''7'')]\<rparr>,
                                     \<lparr>displayName = ''Other'', params = None\<rparr>],
                   bundle_output = ''b''\<rparr> =
     \<lparr>displayName = ''Home'', params = Some [(''id'', ''7'')]\<rparr> #
     [\<lparr>displayName = ''Other'', params = None\<rparr>] \<and>
   catchall_PlasmicLoaderPage
     \<lparr>plasmicData = Some \<lparr>entryCompMetas = [\<lparr>displayName = ''Home'', params = Some [(''id'', ''7'')]\<rparr>,
                                              \<lparr>displayName = ''Other'', params = None\<rparr>],
                            bundle_output = ''b''\<rparr>,
      queryCache = Some [(''k'', ''v'')]\<rparr> [(''tab'', ''1'')] =
     Inr (Provider \<lparr>prefetchedData = \<lparr>entryCompMetas = [\<lparr>displayName = ''Home'', params = Some [(''id'', ''7'')]\<rparr>,
                                              \<lparr>displayName = ''Other'', params = None\<rparr>],
                            bundle_output = ''b''\<rparr>,
                    prefetchedQueryData = Some [(''k'', ''v'')],
                    pageParams = Some [(''id'', ''7'')], pageQuery = Some [(''tab'', ''1'')],
                    component = ''Home''\<rparr>)"
proof -
  have h: "entryCompMetas \<lparr>entryCompMetas = [\<lparr>displayName = ''Home'', params = Some [(''id'', ''7'')]\<rparr>,
                                     \<lparr>displayName = ''Other'', params = None\<rparr>],
                   bundle_output = ''b''\<rparr> =
     \<lparr>displayName = ''Home'', params = Some [(''id'', ''7'')]\<rparr> #
     [\<lparr>displayName = ''Other'', params = None\<rparr>]" by simp
  show ?thesis
    using render_first_entry [OF h, of "Some [(''k'', ''v'')]" "[(''tab'', ''1'')]"] by simp
qed

section \<open>Absent and empty descriptors\<close>

text \<open>
  Claim C4. In the server-prefetch variant, for an authorized request whose descriptor
  fetch returns absent, the server step makes that one fetch and returns props with no
  descriptor and no cache; the page component renders those props as the 404 page.
\<close>

theorem absent_descriptor_empty_props_404:
  assumes "authorized"
    and "maybeFetchComponentData e (plasmicPath_of (catchall_of ctx)) = Inr None"
  shows "catchall_getServerSideProps_with authorized e ctx =
           ([FetchComponentData (plasmicPath_of (catchall_of ctx))],
            Inr (PropsResult \<lparr>plasmicData = None, queryCache = None\<rparr>)) \<and>
         catchall_PlasmicLoaderPage \<lparr>plasmicData = None, queryCache = None\<rparr> query =
           Inr (ErrorPage 404)"
  using assms
  by (simp add: catchall_getServerSideProps_with_def catchall_PlasmicLoaderPage_def)

theorem absent_descriptor_empty_props_404_witness:
  "isAuthorized \<and>
   maybeFetchComponentData
     \<lparr>maybeFetchComponentData = (\<lambda>p. Inr None), extractPlasmicQueryData = (\<lambda>t. Inr [])\<rparr>
     (plasmicPath_of (catchall_of \<lparr>context_params = Some [''catchall'' \<mapsto> PArray [''no'', ''page'']]\<rparr>))
     = Inr None \<and>
   catchall_getServerSideProps
     \<lparr>maybeFetchComponentData = (\<lambda>p. Inr None), extractPlasmicQueryData = (\<lambda>t. Inr [])\<rparr>
     \<lparr>context_params = Some [''catchall'' \<mapsto> PArray [''no'', ''page'']]\<rparr> =
     ([FetchComponentData ''/no/page''],
      Inr (PropsResult \<lparr>plasmicData = None, queryCache = None\<rparr>)) \<and>
   catchall_PlasmicLoaderPage \<lparr>plasmicData = None, queryCache = None\<rparr> [] = Inr (ErrorPage 404)"
proof -
  let ?e = "\<lparr>maybeFetchComponentData = (\<lambda>p. Inr None), extractPlasmicQueryData = (\<lambda>t. Inr [])\<rparr>"
  let ?ctx = "\<lparr>context_params = Some [''catchall'' \<mapsto> PArray [''no'', ''page'']]\<rparr>"
  have a: "isAuthorized" by (simp add: isAuthorized_def)
  have f: "maybeFetchComponentData ?e (plasmicPath_of (catchall_of ?ctx)) = Inr None" by simp
  have p: "plasmicPath_of (catchall_of ?ctx) = ''/no/page''"
    by (simp add: plasmicPath_of_def catchall_of_def join_def)
  show ?thesis
    using a f absent_descriptor_empty_props_404 [OF a f, of "[]"]
    by (simp add: p catchall_getServerSideProps_def)
qed

text \<open>
  Claim C5, as stated, fails in the client-fetch variant: the error guard comes first, so
  a descriptor with an empty entry list that is still cached when a fetch error is
  reported renders the error page (status 500), not the 404 page.
\<close>

theorem empty_entries_error_state_counterexample:
  "client_PlasmicLoaderPage
     \<lparr>data = Some \<lparr>entryCompMetas = [], bundle_output = ''b''\<rparr>,
      error = Some (Rejected ''network''), isValidating = False\<rparr>
     \<lparr>plasmicPath = ''/a''\<rparr> [] = Inr (ErrorPage 500) \<and>
   client_PlasmicLoaderPage
     \<lparr>data = Some \<lparr>entryCompMetas = [], bundle_output = ''b''\<rparr>,
      error = Some (Rejected ''network''), isValidating = False\<rparr>
     \<lparr>plasmicPath = ''/a''\<rparr> [] \<noteq> Inr (ErrorPage 404)"
  by (simp add: client_PlasmicLoaderPage_def)

text \<open>
  Claim C5, amended. For every descriptor that is present with an empty entry list, the
  page components of index.tsx and of the server-prefetch catch-all render the 404 page;
  the page component of the client-fetch catch-all renders the 404 page when no fetch
  error is reported and the fetch is settled. No authorization result enters any of the
  three components.
\<close>

theorem empty_entries_404:
  assumes "entryCompMetas d = []"
    and "data swr = Some d" and "error swr = None" and "\<not> isValidating swr"
  shows "index_PlasmicLoaderPage \<lparr>plasmicData = Some d, queryCache = qc\<rparr> query =
           Inr (ErrorPage 404) \<and>
         catchall_PlasmicLoaderPage \<lparr>plasmicData = Some d, queryCache = qc\<rparr> query =
           Inr (ErrorPage 404) \<and>
         client_PlasmicLoaderPage swr ps query = Inr (ErrorPage 404)"
  using assms
  by (simp add: index_PlasmicLoaderPage_def catchall_PlasmicLoaderPage_def
      client_PlasmicLoaderPage_def)

theorem empty_entries_404_witness:
  "entryCompMetas \<lparr>entryCompMetas = [], bundle_output = ''b''\<rparr> = [] \<and>
   data \<lparr>data = Some \<lparr>entryCompMetas = [], bundle_output = ''b''\<rparr>, error = None,
         isValidating = False\<rparr> = Some \<lparr>entryCompMetas = [], bundle_output = ''b''\<rparr> \<and>
   error \<lparr>data = Some \<lparr>entryCompMetas = [], bundle_output = ''b''\<rparr>, error = None,
          isValidating = False\<rparr> = None \<and>
   \<not> isValidating \<lparr>data = Some \<lparr>entryCompMetas = [], bundle_output = ''b''\<rparr>, error = None,
                    isValidating = False\<rparr> \<and>
   index_PlasmicLoaderPage
     \<lparr>plasmicData = Some \<lparr>entryCompMetas = [], bundle_output = ''b''\<rparr>,
      queryCache = Some []\<rparr> [] = Inr (ErrorPage 404) \<and>
   catchall_PlasmicLoaderPage
     \<lparr>plasmicData = Some \<lparr>entryCompMetas = [], bundle_output = ''b''\<rparr>,
      queryCache = Some []\<rparr> [] = Inr (ErrorPage 404) \<and>
   client_PlasmicLoaderPage
     \<lparr>data = Some \<lparr>entryCompMetas = [], bundle_output = ''b''\<rparr>, error = None,
      isValidating = False\<rparr> \<lparr>plasmicPath = ''/a''\<rparr> [] = Inr (ErrorPage 404)"
proof -
  let ?d = "\<lparr>entryCompMetas = [], bundle_output = ''b''\<rparr>"
  let ?swr = "\<lparr>data = Some ?d, error = None, isValidating = False\<rparr>"
  have h1: "entryCompMetas ?d = []" by simp
  have h2: "data ?swr = Some ?d" by simp
  have h3: "error ?swr = None" by simp
  have h4: "\<not> isValidating ?swr" by simp
  show ?thesis
    using empty_entries_404 [OF h1 h2 h3 h4, of "Some []" "[]" "\<lparr>plasmicPath = ''/a''\<rparr>"]
    by simp
qed

section \<open>Render states of the client-fetch variant\<close>

text \<open>
  The branches of the client-fetch page component, one lemma each, in the order of the
  source: the error page whenever an error is reported; the loading element while a fetch
  is in flight and there is no data; the 404 page once the fetch is settled with no
  descriptor or an empty entry list; the first entry's component, with the empty object
  as query cache, whenever the descriptor has a first entry.
\<close>

lemma client_error_first:
  "error swr \<noteq> None \<Longrightarrow> client_PlasmicLoaderPage swr ps query = Inr (ErrorPage 500)"
  by (simp add: client_PlasmicLoaderPage_def)

lemma client_loading:
  "error swr = None \<Longrightarrow> isValidating swr \<Longrightarrow> data swr = None \<Longrightarrow>
   client_PlasmicLoaderPage swr ps query = Inr Loading"
  by (simp add: client_PlasmicLoaderPage_def)

lemma client_settled_not_found:
  "error swr = None \<Longrightarrow> \<not> isValidating swr \<Longrightarrow>
   data swr = None \<or> (\<exists>d. data swr = Some d \<and> entryCompMetas d = []) \<Longrightarrow>
   client_PlasmicLoaderPage swr ps query = Inr (ErrorPage 404)"
  by (auto simp add: client_PlasmicLoaderPage_def)

lemma client_renders_first:
  "error swr = None \<Longrightarrow> data swr = Some d \<Longrightarrow> entryCompMetas d = m # ms \<Longrightarrow>
   client_PlasmicLoaderPage swr ps query =
     Inr (Provider \<lparr>prefetchedData = d, prefetchedQueryData = Some [],
                    pageParams = params m, pageQuery = Some query,
                    component = displayName m\<rparr>)"
  by (simp add: client_PlasmicLoaderPage_def js_index_Cons)

text \<open>
  Claim C6 says that the four branches above cover every combination of error, in-flight
  flag and data. One combination is left: no error, a fetch in flight, and a cached
  descriptor with an empty entry list. There the component reaches none of the four
  states: it reads \<open>params\<close> of the missing first entry and throws.
\<close>

theorem client_revalidating_empty_entries_throws:
  "client_PlasmicLoaderPage
     \<lparr>data = Some \<lparr>entryCompMetas = [], bundle_output = ''b''\<rparr>, error = None,
      isValidating = True\<rparr> \<lparr>plasmicPath = ''/orders''\<rparr> [] = Inl TypeError"
  by (simp add: client_PlasmicLoaderPage_def js_index_Nil)

section \<open>The build-time step of the public page\<close>

text \<open>
  Whatever the loader library answers, the step makes one fetch, for the path \<open>/\<close>, and
  at most one pre-computation after it.
\<close>

lemma getStaticProps_fetches_root:
  "fst (getStaticProps e) = [FetchComponentData ''/''] \<or>
   (\<exists>tree. fst (getStaticProps e) = [FetchComponentData ''/'', ExtractQueryData tree])"
  by (simp add: getStaticProps_def pageToLoad_def Let_def
      split: sum.split option.split)

text \<open>
  Claim C7, as stated, fails: a present descriptor is not enough for the step to return.
  No handler catches what the loader library throws, so when the pre-computation for the
  first entry is rejected the step throws that rejection and returns no props.
\<close>

theorem getStaticProps_precompute_rejected_counterexample:
  "getStaticProps
     \<lparr>maybeFetchComponentData =
        (\<lambda>p. Inr (Some \<lparr>entryCompMetas = [\<lparr>displayName = ''Home'', params = None\<rparr>],
                          bundle_output = ''b''\<rparr>)),
      extractPlasmicQueryData = (\<lambda>t. Inl (Rejected ''query failed''))\<rparr> =
     ([FetchComponentData ''/'',
       ExtractQueryData
         \<lparr>prefetchedData = \<lparr>entryCompMetas = [\<lparr>displayName = ''Home'', params = None\<rparr>],
                            bundle_output = ''b''\<rparr>,
          prefetchedQueryData = None, pageParams = None, pageQuery = None,
          component = ''Home''\<rparr>],
      Inl (Rejected ''query failed''))"
  by (simp add: getStaticProps_def pageToLoad_def js_index_Cons)

text \<open>
  Claim C7, amended. The build-time step fetches the descriptor for the fixed path \<open>/\<close>;
  whenever that fetch yields a descriptor with a first entry and the pre-computation for
  that entry yields a cache, the step returns the descriptor, that cache and a
  revalidation interval of 60, having made exactly these two calls.
\<close>

theorem getStaticProps_present:
  assumes "maybeFetchComponentData e ''/'' = Inr (Some d)"
    and "entryCompMetas d = m # ms"
    and "extractPlasmicQueryData e
           \<lparr>prefetchedData = d, prefetchedQueryData = None, pageParams = params m,
            pageQuery = None, component = displayName m\<rparr> = Inr qc"
  shows "getStaticProps e =
           ([FetchComponentData ''/'',
             ExtractQueryData
               \<lparr>prefetchedData = d, prefetchedQueryData = None, pageParams = params m,
                pageQuery = None, component = displayName m\<rparr>],
            Inr \<lparr>props = \<lparr>plasmicData = Some d, queryCache = Some qc\<rparr>,
                 revalidate = Some 60\<rparr>)"
  using assms
  by (simp add: getStaticProps_def pageToLoad_def js_index_Cons)

theorem getStaticProps_present_witness:
  "maybeFetchComponentData
     \<lparr>maybeFetchComponentData =
        (\<lambda>p. if p = ''/''
              then Inr (Some \<lparr>entryCompMetas = [\<lparr>displayName = ''Home'', params = None\<rparr>],
                               bundle_output = ''b''\<rparr>)
              else Inr None),
      extractPlasmicQueryData = (\<lambda>t. Inr [(component t, ''rows'')])\<rparr> ''/'' =
     Inr (Some \<lparr>entryCompMetas = [\<lparr>displayName = ''Home'', params = None\<rparr>],
                bundle_output = ''b''\<rparr>) \<and>
   entryCompMetas \<lparr>entryCompMetas = [\<lparr>displayName = ''Home'', params = None\<rparr>],
                   bundle_output = ''b''\<rparr> = \<lparr>displayName = ''Home'', params = None\<rparr> # [] \<and>
   getStaticProps
     \<lparr>maybeFetchComponentData =
        (\<lambda>p. if p = ''/''
              then Inr (Some \<lparr>entryCompMetas = [\<lparr>displayName = ''Home'', params = None\<rparr>],
                               bundle_output = ''b''\<rparr>)
              else Inr None),
      extractPlasmicQueryData = (\<lambda>t. Inr [(component t, ''rows'')])\<rparr> =
     ([FetchComponentData ''/'',
       ExtractQueryData
         \<lparr>prefetchedData = \<lparr>entryCompMetas = [\<lparr>displayName = ''Home'', params = None\<rparr>],
                            bundle_output = ''b''\<rparr>,
          prefetchedQueryData = None, pageParams = None, pageQuery = None,
          component = ''Home''\<rparr>],
      Inr \<lparr>props = \<lparr>plasmicData =
                       Some \<lparr>entryCompMetas = [\<lparr>displayName = ''Home'', params = None\<rparr>],
                             bundle_output = ''b''\<rparr>,
                     queryCache = Some [(''Home'', ''rows'')]\<rparr>,
           revalidate = Some 60\<rparr>)"
proof -
  let ?m = "\<lparr>displayName = ''Home'', params = None\<rparr>"
  let ?d = "\<lparr>entryCompMetas = [?m], bundle_output = ''b''\<rparr>"
  let ?e = "\<lparr>maybeFetchComponentData = (\<lambda>p. if p = ''/'' then Inr (Some ?d) else Inr None),
            extractPlasmicQueryData = (\<lambda>t. Inr [(component t, ''rows'')])\<rparr>"
  have h1: "maybeFetchComponentData ?e ''/'' = Inr (Some ?d)" by simp
  have h2: "entryCompMetas ?d = ?m # []" by simp
  have h3: "extractPlasmicQueryData ?e
              \<lparr>prefetchedData = ?d, prefetchedQueryData = None, pageParams = params ?m,
               pageQuery = None, component = displayName ?m\<rparr> = Inr [(''Home'', ''rows'')]"
    by simp
  show ?thesis using h1 h2 getStaticProps_present [OF h1 h2 h3] by simp
qed

section \<open>The server step of the client-fetch variant\<close>

text \<open>
  Claim C8. In the client-fetch variant the server step of an authorized request makes
  no call into the loader library, neither a descriptor fetch nor a pre-computation, and
  returns the derived lookup path as its only prop; whenever the page component renders
  the provider element, the query cache it passes is the empty object.
\<close>

theorem client_server_step_path_only:
  "client_getServerSideProps_with True e ctx =
     ([], Inr (PropsResult \<lparr>plasmicPath = plasmicPath_of (catchall_of ctx)\<rparr>)) \<and>
   client_getServerSideProps e ctx =
     ([], Inr (PropsResult \<lparr>plasmicPath = plasmicPath_of (catchall_of ctx)\<rparr>)) \<and>
   (\<forall>tree. client_PlasmicLoaderPage swr ps query = Inr (Provider tree) \<longrightarrow>
           prefetchedQueryData tree = Some [])"
  by (auto simp add: client_getServerSideProps_def client_getServerSideProps_with_def
      isAuthorized_def client_PlasmicLoaderPage_def
      split: if_splits option.splits)

theorem client_server_step_path_only_witness:
  "client_getServerSideProps
     \<lparr>maybeFetchComponentData = (\<lambda>p. Inl (Rejected ''not to be called'')),
      extractPlasmicQueryData = (\<lambda>t. Inl (Rejected ''not to be called''))\<rparr>
     \<lparr>context_params = Some [''catchall'' \<mapsto> PArray [''orders'', ''42'']]\<rparr> =
     ([], Inr (PropsResult \<lparr>plasmicPath = ''/orders/42''\<rparr>)) \<and>
   client_PlasmicLoaderPage
     \<lparr>data = Some \<lparr>entryCompMetas = [\<lparr>displayName = ''Order'', params = Some [(''id'', ''42'')]\<rparr>],
                     bundle_output = ''b''\<rparr>,
      error = None, isValidating = False\<rparr>
     \<lparr>plasmicPath = ''/orders/42''\<rparr> [(''tab'', ''items'')] =
     Inr (Provider
           \<lparr>prefetchedData = \<lparr>entryCompMetas = [\<lparr>displayName = ''Order'', params = Some [(''id'', ''42'')]\<rparr>],
                              bundle_output = ''b''\<rparr>,
            prefetchedQueryData = Some [], pageParams = Some [(''id'', ''42'')],
            pageQuery = Some [(''tab'', ''items'')], component = ''Order''\<rparr>) \<and>
   prefetchedQueryData
     \<lparr>prefetchedData = \<lparr>entryCompMetas = [\<lparr>displayName = ''Order'', params = Some [(''id'', ''42'')]\<rparr>],
                        bundle_output = ''b''\<rparr>,
      prefetchedQueryData = Some [], pageParams = Some [(''id'', ''42'')],
      pageQuery = Some [(''tab'', ''items'')], component = ''Order''\<rparr> = Some []"
proof -
  let ?e = "\<lparr>maybeFetchComponentData = (\<lambda>p. Inl (Rejected ''not to be called'')),
            extractPlasmicQueryData = (\<lambda>t. Inl (Rejected ''not to be called''))\<rparr>"
  let ?ctx = "\<lparr>context_params = Some [''catchall'' \<mapsto> PArray [''orders'', ''42'']]\<rparr>"
  let ?d = "\<lparr>entryCompMetas = [\<lparr>displayName = ''Order'', params = Some [(''id'', ''42'')]\<rparr>],
            bundle_output = ''b''\<rparr>"
  let ?swr = "\<lparr>data = Some ?d, error = None, isValidating = False\<rparr>"
  have p: "plasmicPath_of (catchall_of ?ctx) = ''/orders/42''"
    by (simp add: plasmicPath_of_def catchall_of_def join_def)
  have r: "client_PlasmicLoaderPage ?swr \<lparr>plasmicPath = ''/orders/42''\<rparr> [(''tab'', ''items'')] =
     Inr (Provider
           \<lparr>prefetchedData = ?d,
            prefetchedQueryData = Some [], pageParams = Some [(''id'', ''42'')],
            pageQuery = Some [(''tab'', ''items'')], component = ''Order''\<rparr>)"
    by (simp add: client_PlasmicLoaderPage_def js_index_Cons)
  show ?thesis
    using client_server_step_path_only
      [of ?e ?ctx ?swr "\<lparr>plasmicPath = ''/orders/42''\<rparr>" "[(''tab'', ''items'')]"]
    by (simp add: p r)
qed

section \<open>The unguarded read of the first entry\<close>

text \<open>
  Claim C9. In \<^verbatim>\<open>getStaticProps\<close> of the public page and in \<^verbatim>\<open>getServerSideProps\<close> of
  the server-prefetch catch-all, a present descriptor with an empty entry list makes the
  step throw: the first entry is read without a test for emptiness, and reading its
  \<open>params\<close> is a \<^verbatim>\<open>TypeError\<close>. The step returns no props, so the page component, whose
  own guard would render the 404 page, is not reached, and the pre-computation is not
  called.
\<close>

theorem server_steps_throw_on_empty_entries:
  assumes "entryCompMetas d = []"
    and "maybeFetchComponentData e ''/'' = Inr (Some d)"
    and "maybeFetchComponentData e (plasmicPath_of (catchall_of ctx)) = Inr (Some d)"
  shows "getStaticProps e = ([FetchComponentData ''/''], Inl TypeError) \<and>
         catchall_getServerSideProps e ctx =
           ([FetchComponentData (plasmicPath_of (catchall_of ctx))], Inl TypeError)"
  using assms
  by (simp add: getStaticProps_def pageToLoad_def catchall_getServerSideProps_def
      catchall_getServerSideProps_with_def isAuthorized_def js_index_Nil)

theorem server_steps_throw_on_empty_entries_witness:
  "entryCompMetas \<lparr>entryCompMetas = [], bundle_output = ''b''\<rparr> = [] \<and>
   getStaticProps
     \<lparr>maybeFetchComponentData = (\<lambda>p. Inr (Some \<lparr>entryCompMetas = [], bundle_output = ''b''\<rparr>)),
      extractPlasmicQueryData = (\<lambda>t. Inr [])\<rparr> =
     ([FetchComponentData ''/''], Inl TypeError) \<and>
   catchall_getServerSideProps
     \<lparr>maybeFetchComponentData = (\<lambda>p. Inr (Some \<lparr>entryCompMetas = [], bundle_output = ''b''\<rparr>)),
      extractPlasmicQueryData = (\<lambda>t. Inr [])\<rparr>
     \<lparr>context_params = Some [''catchall'' \<mapsto> PString ''reports'']\<rparr> =
     ([FetchComponentData ''reports''], Inl TypeError)"
proof -
  let ?d = "\<lparr>entryCompMetas = [], bundle_output = ''b''\<rparr>"
  let ?e = "\<lparr>maybeFetchComponentData = (\<lambda>p. Inr (Some ?d)),
            extractPlasmicQueryData = (\<lambda>t. Inr [])\<rparr>"
  let ?ctx = "\<lparr>context_params = Some [''catchall'' \<mapsto> PString ''reports'']\<rparr>"
  have h1: "entryCompMetas ?d = []" by simp
  have h2: "maybeFetchComponentData ?e ''/'' = Inr (Some ?d)" by simp
  have h3: "maybeFetchComponentData ?e (plasmicPath_of (catchall_of ?ctx)) = Inr (Some ?d)"
    by simp
  have p: "plasmicPath_of (catchall_of ?ctx) = ''reports''"
    by (simp add: plasmicPath_of_def catchall_of_def)
  show ?thesis
    using server_steps_throw_on_empty_entries [OF h1 h2 h3] by (simp add: p)
qed

text \<open>
  Claim C10. In the client-fetch page component, when no error is reported, a fetch is
  in flight and the cached descriptor has an empty entry list, the loading guard (which
  needs absent data) and the 404 guard (which needs a settled fetch) are both passed
  over, and the component throws on reading \<open>params\<close> of the missing first entry
  instead of returning the 404 page.
\<close>

theorem client_404_guard_skipped_while_revalidating:
  assumes "error swr = None" and "isValidating swr"
    and "data swr = Some d" and "entryCompMetas d = []"
  shows "client_PlasmicLoaderPage swr ps query = Inl TypeError \<and>
         client_PlasmicLoaderPage swr ps query \<noteq> Inr (ErrorPage 404) \<and>
         client_PlasmicLoaderPage swr ps query \<noteq> Inr Loading"
  using assms
  by (simp add: client_PlasmicLoaderPage_def js_index_Nil)

theorem client_404_guard_skipped_while_revalidating_witness:
  "error \<lparr>data = Some \<lparr>entryCompMetas = [], bundle_output = ''stale''\<rparr>, error = None,
          isValidating = True\<rparr> = None \<and>
   isValidating \<lparr>data = Some \<lparr>entryCompMetas = [], bundle_output = ''stale''\<rparr>, error = None,
                 isValidating = True\<rparr> \<and>
   data \<lparr>data = Some \<lparr>entryCompMetas = [], bundle_output = ''stale''\<rparr>, error = None,
         isValidating = True\<rparr> = Some \<lparr>entryCompMetas = [], bundle_output = ''stale''\<rparr> \<and>
   entryCompMetas \<lparr>entryCompMetas = [], bundle_output = ''stale''\<rparr> = [] \<and>
   client_PlasmicLoaderPage
     \<lparr>data = Some \<lparr>entryCompMetas = [], bundle_output = ''stale''\<rparr>, error = None,
      isValidating = True\<rparr> \<lparr>plasmicPath = ''/a/b''\<rparr> [(''q'', ''1'')] = Inl TypeError"
proof -
  let ?d = "\<lparr>entryCompMetas = [], bundle_output = ''stale''\<rparr>"
  let ?swr = "\<lparr>data = Some ?d, error = None, isValidating = True\<rparr>"
  have h1: "error ?swr = None" by simp
  have h2: "isValidating ?swr" by simp
  have h3: "data ?swr = Some ?d" by simp
  have h4: "entryCompMetas ?d = []" by simp
  show ?thesis
    using client_404_guard_skipped_while_revalidating
      [OF h1 h2 h3 h4, of "\<lparr>plasmicPath = ''/a/b''\<rparr>" "[(''q'', ''1'')]"]
    by simp
qed

end
